theory Spec2Isabelle
  imports Complex_Main "HOL-Library.Sublist" "HOL-Library.AList"
begin

section \<open>Python values and exceptions\<close>

text \<open>
  The values \<^verbatim>\<open>yaml.safe_load\<close> and \<^verbatim>\<open>json.loads\<close> can return. A dictionary is an
  association list in insertion order; a set is the list of its elements. Dates stand
  for the values of YAML's timestamp tag (an unquoted \<^verbatim>\<open>2010-09-09\<close> is one).
\<close>

datatype pyval =
    PNone
  | PBool bool
  | PInt int
  | PFloat real
  | PStr string
  | PBytes string
  | PDate string
  | PDateTime string
  | PList "pyval list"
  | PSet "pyval list"
  | PDict "(pyval \<times> pyval) list"

text \<open>
  The exception classes the handlers of the repository tell apart, each with the text
  that \<^verbatim>\<open>str(e)\<close> gives, except \<open>KeyError\<close>, which carries the missing key.
\<close>

datatype exception =
    YAMLError string
  | JSONDecodeError string
  | TypeError string
  | KeyError string
  | IndexError string
  | OtherException string

text \<open>A text between single quotes, as Python's messages show type names and keys.\<close>

definition quoted :: "string \<Rightarrow> string" where
  "quoted s = [CHR 0x27] @ s @ [CHR 0x27]"

fun py_str_exc :: "exception \<Rightarrow> string" where
  "py_str_exc (YAMLError m) = m"
| "py_str_exc (JSONDecodeError m) = m"
| "py_str_exc (TypeError m) = m"
| "py_str_exc (KeyError k) = quoted k"
| "py_str_exc (IndexError m) = m"
| "py_str_exc (OtherException m) = m"

definition bindE :: "exception + 'a \<Rightarrow> ('a \<Rightarrow> exception + 'b) \<Rightarrow> exception + 'b" where
  "bindE m f = (case m of Inl e \<Rightarrow> Inl e | Inr a \<Rightarrow> f a)"

fun type_name :: "pyval \<Rightarrow> string" where
  "type_name PNone = ''NoneType''"
| "type_name (PBool _) = ''bool''"
| "type_name (PInt _) = ''int''"
| "type_name (PFloat _) = ''float''"
| "type_name (PStr _) = ''str''"
| "type_name (PBytes _) = ''bytes''"
| "type_name (PDate _) = ''datetime.date''"
| "type_name (PDateTime _) = ''datetime.datetime''"
| "type_name (PList _) = ''list''"
| "type_name (PSet _) = ''set''"
| "type_name (PDict _) = ''dict''"

text \<open>\<^verbatim>\<open>isinstance(v, dict)\<close>\<close>

fun isinstance_dict :: "pyval \<Rightarrow> bool" where
  "isinstance_dict (PDict _) = True"
| "isinstance_dict _ = False"

text \<open>
  \<^verbatim>\<open>key in v\<close> for a string \<open>key\<close>: key membership in a dictionary, element membership
  in a list or set, substring test in a string; the other types raise \<open>TypeError\<close>
  (message texts of CPython 3.11 to 3.13).
\<close>

fun py_contains :: "string \<Rightarrow> pyval \<Rightarrow> exception + bool" where
  "py_contains k (PDict d) = Inr (PStr k \<in> fst ` set d)"
| "py_contains k (PList xs) = Inr (PStr k \<in> set xs)"
| "py_contains k (PSet xs) = Inr (PStr k \<in> set xs)"
| "py_contains k (PStr s) = Inr (sublist k s)"
| "py_contains k (PBytes b) = Inl (TypeError (''a bytes-like object is required, not '' @ quoted ''str''))"
| "py_contains k v =
     Inl (TypeError (''argument of type '' @ quoted (type_name v) @ '' is not iterable''))"

text \<open>\<^verbatim>\<open>v[key]\<close> for a string \<open>key\<close>.\<close>

fun py_getitem :: "pyval \<Rightarrow> string \<Rightarrow> exception + pyval" where
  "py_getitem (PDict d) k =
     (case map_of d (PStr k) of None \<Rightarrow> Inl (KeyError k) | Some v \<Rightarrow> Inr v)"
| "py_getitem (PList xs) k =
     Inl (TypeError ''list indices must be integers or slices, not str'')"
| "py_getitem (PStr s) k = Inl (TypeError (''string indices must be integers, not '' @ quoted ''str''))"
| "py_getitem (PBytes b) k =
     Inl (TypeError ''byte indices must be integers or slices, not str'')"
| "py_getitem v k = Inl (TypeError (quoted (type_name v) @ '' object is not subscriptable''))"

text \<open>\<^verbatim>\<open>len(v)\<close>\<close>

fun py_len :: "pyval \<Rightarrow> exception + nat" where
  "py_len (PStr s) = Inr (length s)"
| "py_len (PBytes b) = Inr (length b)"
| "py_len (PList xs) = Inr (length xs)"
| "py_len (PSet xs) = Inr (length xs)"
| "py_len (PDict d) = Inr (length d)"
| "py_len v = Inl (TypeError (''object of type '' @ quoted (type_name v) @ '' has no len()''))"

section \<open>OnboardingAgent: local template validation\<close>

text \<open>
  The dictionary \<^verbatim>\<open>validate_cloudformation_template\<close> returns: either
  \<^verbatim>\<open>{"valid": True, "message": m}\<close> or \<^verbatim>\<open>{"valid": False, "errors": es}\<close>.
\<close>

datatype validation_result = Valid string | Invalid "string list"

fun valid :: "validation_result \<Rightarrow> bool" where
  "valid (Valid _) = True"
| "valid (Invalid _) = False"

fun errors :: "validation_result \<Rightarrow> string list" where
  "errors (Valid _) = []"
| "errors (Invalid es) = es"

text \<open>
  The inner \<^verbatim>\<open>try\<close> of lines 26 to 30: \<^verbatim>\<open>yaml.safe_load\<close> first, and
  \<^verbatim>\<open>json.loads\<close> in the handler of \<^verbatim>\<open>yaml.YAMLError\<close> only. Both parsers belong to
  libraries outside the repository and are parameters of the model.
\<close>

definition parse_template ::
  "(string \<Rightarrow> exception + pyval) \<Rightarrow> (string \<Rightarrow> exception + pyval) \<Rightarrow> string
    \<Rightarrow> exception + pyval" where
  "parse_template yaml_safe_load json_loads template =
     (case yaml_safe_load template of
        Inl (YAMLError _) \<Rightarrow> json_loads template
      | Inl e \<Rightarrow> Inl e
      | Inr template_dict \<Rightarrow> Inr template_dict)"

text \<open>
  Lines 33 to 54: the checks on the parsed value, in the order of the source. Each
  \<^verbatim>\<open>in\<close>, subscript and \<^verbatim>\<open>len\<close> may raise, which leaves the block with the
  exception and drops the errors collected so far. The \<^verbatim>\<open>log.info\<close> of line 49
  returns nothing and is left out; its membership test is kept.
\<close>

definition structure_checks :: "pyval \<Rightarrow> exception + validation_result" where
  "structure_checks template_dict =
    (let errors1 =
       (if \<not> isinstance_dict template_dict
        then [''Template must be a dictionary/object''] else [])
     in
     bindE (py_contains ''Resources'' template_dict) (\<lambda>c1.
     let errors2 =
       (if \<not> c1 then errors1 @ [''Template must contain 'Resources' section'']
        else errors1)
     in
     bindE (py_contains ''Resources'' template_dict) (\<lambda>c2.
     bindE (if c2
            then bindE (py_getitem template_dict ''Resources'')
                   (\<lambda>r. Inr (\<not> isinstance_dict r))
            else Inr False) (\<lambda>b3.
     let errors3 =
       (if b3 then errors2 @ ['''Resources' must be a dictionary''] else errors2)
     in
     bindE (py_contains ''Resources'' template_dict) (\<lambda>c4.
     bindE (if c4
            then bindE (py_getitem template_dict ''Resources'')
                   (\<lambda>r. bindE (py_len r) (\<lambda>n. Inr (n = 0)))
            else Inr False) (\<lambda>b4.
     let errors4 =
       (if b4 then errors3 @ ['''Resources' section cannot be empty''] else errors3)
     in
     bindE (py_contains ''AWSTemplateFormatVersion'' template_dict) (\<lambda>_.
     if errors4 \<noteq> [] then Inr (Invalid errors4)
     else Inr (Valid ''Template structure is valid''))))))))"

text \<open>The three handlers of lines 56 to 61, tried in the order of the source.\<close>

fun validation_handler :: "exception \<Rightarrow> validation_result" where
  "validation_handler (JSONDecodeError m) =
     Invalid [''Invalid JSON: '' @ py_str_exc (JSONDecodeError m)]"
| "validation_handler (YAMLError m) =
     Invalid [''Invalid YAML: '' @ py_str_exc (YAMLError m)]"
| "validation_handler e = Invalid [''Validation error: '' @ py_str_exc e]"

definition validate_cloudformation_template ::
  "(string \<Rightarrow> exception + pyval) \<Rightarrow> (string \<Rightarrow> exception + pyval) \<Rightarrow> string
    \<Rightarrow> validation_result" where
  "validate_cloudformation_template yaml_safe_load json_loads template =
     (case bindE (parse_template yaml_safe_load json_loads template) structure_checks of
        Inl e \<Rightarrow> validation_handler e
      | Inr result \<Rightarrow> result)"

section \<open>ProvisioningAgent: the CloudFormation client\<close>

text \<open>
  The keyword arguments of \<^verbatim>\<open>cfn_client.create_stack\<close>; a parameter is the dictionary
  \<^verbatim>\<open>{"ParameterKey": k, "ParameterValue": v}\<close>, a tag \<^verbatim>\<open>{'Key': k, 'Value': v}\<close>.
\<close>

record parameter =
  ParameterKey :: string
  ParameterValue :: string

record tag =
  Key :: string
  Value :: string

record create_stack_request =
  StackName :: string
  TemplateBody :: string
  Parameters :: "parameter list"
  Capabilities :: "string list"
  OnFailure :: string
  Tags :: "tag list"

text \<open>
  The response dictionaries of the client. A field is \<open>None\<close> when the key is absent
  from the dictionary: a subscript \<^verbatim>\<open>d['k']\<close> then raises \<open>KeyError\<close>, and
  \<^verbatim>\<open>d.get('k', default)\<close> gives the default. A datetime stands as the text that
  \<^verbatim>\<open>str\<close> gives for it.
\<close>

datatype datetime = Datetime (py_str_datetime: string)

record create_stack_response =
  StackId :: "string option"

record stack_output =
  OutputKey :: "string option"
  OutputValue :: "string option"

record stack =
  stack_StackName :: "string option"
  stack_StackStatus :: "string option"
  stack_Outputs :: "stack_output list option"
  stack_CreationTime :: "datetime option"
  stack_LastUpdatedTime :: "datetime option"

record describe_stacks_response =
  Stacks :: "stack list option"

record stack_resource =
  res_LogicalResourceId :: "string option"
  res_PhysicalResourceId :: "string option"
  res_ResourceType :: "string option"
  res_ResourceStatus :: "string option"

record describe_stack_resources_response =
  StackResources :: "stack_resource list option"

record stack_event =
  ev_Timestamp :: "datetime option"
  ev_ResourceType :: "string option"
  ev_LogicalResourceId :: "string option"
  ev_ResourceStatus :: "string option"
  ev_ResourceStatusReason :: "string option"

record describe_stack_events_response =
  StackEvents :: "stack_event list option"

record template_parameter =
  tp_ParameterKey :: "string option"

record validate_template_response =
  vt_Description :: "string option"
  vt_Parameters :: "template_parameter list option"
  vt_Capabilities :: "string list option"

text \<open>
  The module-level \<^verbatim>\<open>cfn_client\<close> (line 15): the five operations the tools call,
  each returning its response or raising. An operation answers by its arguments: how
  the backend changes between two calls is not part of the model.
\<close>

record cfn_client =
  create_stack :: "create_stack_request \<Rightarrow> exception + create_stack_response"
  describe_stacks :: "string \<Rightarrow> exception + describe_stacks_response"
  describe_stack_resources :: "string \<Rightarrow> exception + describe_stack_resources_response"
  describe_stack_events :: "string \<Rightarrow> exception + describe_stack_events_response"
  validate_template :: "string \<Rightarrow> exception + validate_template_response"

text \<open>
  What a tool does is its returned value together with the calls it made on the client,
  in order.
\<close>

datatype api_call =
    CreateStack create_stack_request
  | DescribeStacks string
  | DescribeStackResources string
  | DescribeStackEvents string
  | ValidateTemplate string

type_synonym 'a action = "(exception + 'a) \<times> api_call list"

definition pure :: "exception + 'a \<Rightarrow> 'a action" where
  "pure x = (x, [])"

definition call_api :: "api_call \<Rightarrow> exception + 'a \<Rightarrow> 'a action" where
  "call_api c response = (response, [c])"

definition bindA :: "'a action \<Rightarrow> ('a \<Rightarrow> 'b action) \<Rightarrow> 'b action" where
  "bindA m f =
     (case m of
        (Inl e, cs) \<Rightarrow> (Inl e, cs)
      | (Inr a, cs) \<Rightarrow> (case f a of (r, cs') \<Rightarrow> (r, cs @ cs')))"

text \<open>\<^verbatim>\<open>d['k']\<close> on a response dictionary.\<close>

definition dict_get :: "string \<Rightarrow> 'a option \<Rightarrow> exception + 'a" where
  "dict_get k field = (case field of None \<Rightarrow> Inl (KeyError k) | Some v \<Rightarrow> Inr v)"

text \<open>\<^verbatim>\<open>xs[0]\<close>\<close>

definition first_item :: "'a list \<Rightarrow> exception + 'a" where
  "first_item xs = (case xs of [] \<Rightarrow> Inl (IndexError ''list index out of range'') | x # _ \<Rightarrow> Inr x)"

text \<open>A list comprehension whose element expression may raise: it stops at the first exception.\<close>

fun mapE :: "('a \<Rightarrow> exception + 'b) \<Rightarrow> 'a list \<Rightarrow> exception + 'b list" where
  "mapE f [] = Inr []"
| "mapE f (x # xs) = bindE (f x) (\<lambda>y. bindE (mapE f xs) (\<lambda>ys. Inr (y # ys)))"

text \<open>
  \<^verbatim>\<open>xs[:limit]\<close>: the first \<open>limit\<close> items for a limit that is not negative, and all but
  the last \<open>-limit\<close> items for a negative one.
\<close>

definition slice_to :: "int \<Rightarrow> 'a list \<Rightarrow> 'a list" where
  "slice_to limit xs =
     (if 0 \<le> limit then take (nat limit) xs else take (length xs - nat (- limit)) xs)"

text \<open>
  The dictionaries the tools return: \<^verbatim>\<open>{"success": True, ...}\<close> with the fields of
  the tool, or \<^verbatim>\<open>{"success": False, "error": e, "message": m}\<close>. The remote validation
  names the flag \<^verbatim>\<open>"valid"\<close>.
\<close>

datatype 'a tool_result = Success 'a | Failure (failure_error: string) (failure_message: string)

fun success :: "'a tool_result \<Rightarrow> bool" where
  "success (Success _) = True"
| "success (Failure _ _) = False"

text \<open>
  The \<^verbatim>\<open>try\<close> ... \<^verbatim>\<open>except Exception as e\<close> around the body of each tool; \<open>failed\<close> is
  the start of the handler's message.
\<close>

definition try_except :: "string \<Rightarrow> 'a action \<Rightarrow> 'a tool_result \<times> api_call list" where
  "try_except failed body =
     (case body of
        (Inl e, cs) \<Rightarrow> (Failure (py_str_exc e) (failed @ py_str_exc e), cs)
      | (Inr r, cs) \<Rightarrow> (Success r, cs))"

subsection \<open>deploy_cloudformation_stack\<close>

record deploy_info =
  stack_id :: string
  deploy_status :: string
  deploy_message :: string

text \<open>
  Lines 32 to 37. The argument \<open>parameters\<close> is \<open>None\<close> when it is left out; \<open>py_str\<close>
  is \<^verbatim>\<open>str\<close> on the values of the dictionary.
\<close>

definition cfn_parameters ::
  "('v \<Rightarrow> string) \<Rightarrow> (string \<times> 'v) list option \<Rightarrow> parameter list" where
  "cfn_parameters py_str parameters =
     (case parameters of
        None \<Rightarrow> []
      | Some ps \<Rightarrow>
          if ps \<noteq> []
          then map (\<lambda>(k, v). \<lparr>ParameterKey = k, ParameterValue = py_str v\<rparr>) ps
          else [])"

definition deploy_body ::
  "cfn_client \<Rightarrow> ('v \<Rightarrow> string) \<Rightarrow> string \<Rightarrow> string \<Rightarrow> (string \<times> 'v) list option
    \<Rightarrow> deploy_info action" where
  "deploy_body cfn py_str stack_name template_body parameters =
     (let request =
        \<lparr>StackName = stack_name,
         TemplateBody = template_body,
         Parameters = cfn_parameters py_str parameters,
         Capabilities = [''CAPABILITY_IAM'', ''CAPABILITY_NAMED_IAM'', ''CAPABILITY_AUTO_EXPAND''],
         OnFailure = ''ROLLBACK'',
         Tags = [\<lparr>Key = ''ManagedBy'', Value = ''MWCAgent''\<rparr>,
                 \<lparr>Key = ''Agent'', Value = ''ProvisioningAgent''\<rparr>]\<rparr>
      in
      bindA (call_api (CreateStack request) (create_stack cfn request)) (\<lambda>response.
      bindA (pure (dict_get ''StackId'' (StackId response))) (\<lambda>sid.
      pure (Inr \<lparr>stack_id = sid,
                 deploy_status = ''CREATE_IN_PROGRESS'',
                 deploy_message = ''Stack '' @ stack_name @ '' deployment initiated successfully''\<rparr>))))"

definition deploy_cloudformation_stack ::
  "cfn_client \<Rightarrow> ('v \<Rightarrow> string) \<Rightarrow> string \<Rightarrow> string \<Rightarrow> (string \<times> 'v) list option
    \<Rightarrow> deploy_info tool_result \<times> api_call list" where
  "deploy_cloudformation_stack cfn py_str stack_name template_body parameters =
     try_except ''Failed to deploy stack: ''
       (deploy_body cfn py_str stack_name template_body parameters)"

subsection \<open>get_stack_status\<close>

record resource_record =
  logical_id :: string
  physical_id :: string
  resource_type :: string
  resource_status :: string

record snapshot =
  snap_stack_name :: string
  snap_status :: string
  snap_resources :: "resource_record list"
  snap_outputs :: "(string \<times> string) list"
  snap_creation_time :: string
  snap_last_updated :: string

text \<open>The dictionary of lines 84 to 89, its entries evaluated in the order written.\<close>

definition format_resource :: "stack_resource \<Rightarrow> exception + resource_record" where
  "format_resource r =
     bindE (dict_get ''LogicalResourceId'' (res_LogicalResourceId r)) (\<lambda>lid.
     let pid = (case res_PhysicalResourceId r of None \<Rightarrow> ''N/A'' | Some p \<Rightarrow> p) in
     bindE (dict_get ''ResourceType'' (res_ResourceType r)) (\<lambda>ty.
     bindE (dict_get ''ResourceStatus'' (res_ResourceStatus r)) (\<lambda>st.
     Inr \<lparr>logical_id = lid, physical_id = pid, resource_type = ty, resource_status = st\<rparr>)))"

text \<open>
  The dictionary comprehension of lines 96 to 99, started from the dictionary \<open>d\<close>: a
  key seen again keeps its place and takes the later value.
\<close>

fun outputs_dict ::
  "stack_output list \<Rightarrow> (string \<times> string) list \<Rightarrow> exception + (string \<times> string) list" where
  "outputs_dict [] d = Inr d"
| "outputs_dict (o1 # os) d =
     bindE (dict_get ''OutputKey'' (OutputKey o1)) (\<lambda>k.
     let v = (case OutputValue o1 of None \<Rightarrow> ''N/A'' | Some x \<Rightarrow> x) in
     outputs_dict os (AList.update k v d))"

definition get_stack_status_body :: "cfn_client \<Rightarrow> string \<Rightarrow> snapshot action" where
  "get_stack_status_body cfn name =
     bindA (call_api (DescribeStacks name) (describe_stacks cfn name)) (\<lambda>response.
     bindA (pure (bindE (dict_get ''Stacks'' (Stacks response)) first_item)) (\<lambda>stack.
     bindA (call_api (DescribeStackResources name) (describe_stack_resources cfn name))
       (\<lambda>resources_response.
     bindA (pure (bindE (dict_get ''StackResources'' (StackResources resources_response))
                    (mapE format_resource))) (\<lambda>rs.
     bindA (pure (case stack_Outputs stack of
                    None \<Rightarrow> Inr []
                  | Some outs \<Rightarrow> outputs_dict outs [])) (\<lambda>outs.
     bindA (pure (dict_get ''StackName'' (stack_StackName stack))) (\<lambda>nm.
     bindA (pure (dict_get ''StackStatus'' (stack_StackStatus stack))) (\<lambda>st.
     pure (Inr \<lparr>snap_stack_name = nm,
                snap_status = st,
                snap_resources = rs,
                snap_outputs = outs,
                snap_creation_time =
                  (case stack_CreationTime stack of
                     None \<Rightarrow> ''N/A'' | Some t \<Rightarrow> py_str_datetime t),
                snap_last_updated =
                  (case stack_LastUpdatedTime stack of
                     None \<Rightarrow> ''N/A'' | Some t \<Rightarrow> py_str_datetime t)\<rparr>))))))))"

definition get_stack_status :: "cfn_client \<Rightarrow> string \<Rightarrow> snapshot tool_result \<times> api_call list" where
  "get_stack_status cfn name =
     try_except ''Failed to get stack status: '' (get_stack_status_body cfn name)"




subsection \<open>validate_cloudformation_template of the ProvisioningAgent\<close>

record remote_validation =
  val_description :: string
  val_parameters :: "string list"
  val_capabilities :: "string list"
  val_message :: string

definition validate_cloudformation_template_cfn_body ::
  "cfn_client \<Rightarrow> string \<Rightarrow> remote_validation action" where
  "validate_cloudformation_template_cfn_body cfn template_body =
     bindA (call_api (ValidateTemplate template_body) (validate_template cfn template_body))
       (\<lambda>response.
     let d = (case vt_Description response of None \<Rightarrow> ''No description'' | Some x \<Rightarrow> x) in
     bindA (pure (mapE (\<lambda>p. dict_get ''ParameterKey'' (tp_ParameterKey p))
                    (case vt_Parameters response of None \<Rightarrow> [] | Some ps \<Rightarrow> ps))) (\<lambda>ks.
     pure (Inr \<lparr>val_description = d,
                val_parameters = ks,
                val_capabilities = (case vt_Capabilities response of None \<Rightarrow> [] | Some cs \<Rightarrow> cs),
                val_message = ''Template is valid''\<rparr>)))"

definition validate_cloudformation_template_cfn ::
  "cfn_client \<Rightarrow> string \<Rightarrow> remote_validation tool_result \<times> api_call list" where
  "validate_cloudformation_template_cfn cfn template_body =
     try_except ''Template validation failed: ''
       (validate_cloudformation_template_cfn_body cfn template_body)"

subsection \<open>get_stack_events\<close>

record event_record =
  timestamp :: string
  event_resource_type :: string
  event_logical_id :: string
  event_status :: string
  reason :: string

text \<open>The dictionary of lines 164 to 170.\<close>

definition format_event :: "stack_event \<Rightarrow> exception + event_record" where
  "format_event e =
     bindE (dict_get ''Timestamp'' (ev_Timestamp e)) (\<lambda>ts.
     bindE (dict_get ''ResourceType'' (ev_ResourceType e)) (\<lambda>ty.
     bindE (dict_get ''LogicalResourceId'' (ev_LogicalResourceId e)) (\<lambda>lid.
     bindE (dict_get ''ResourceStatus'' (ev_ResourceStatus e)) (\<lambda>st.
     Inr \<lparr>timestamp = py_str_datetime ts,
          event_resource_type = ty,
          event_logical_id = lid,
          event_status = st,
          reason = (case ev_ResourceStatusReason e of None \<Rightarrow> ''N/A'' | Some x \<Rightarrow> x)\<rparr>))))"

text \<open>
  The argument \<open>limit\<close> is \<open>None\<close> when the caller leaves it out, and the signature's
  default 10 stands in.
\<close>

definition get_stack_events_body ::
  "cfn_client \<Rightarrow> string \<Rightarrow> int option \<Rightarrow> event_record list action" where
  "get_stack_events_body cfn name limit_arg =
     (let limit = (case limit_arg of None \<Rightarrow> 10 | Some l \<Rightarrow> l) in
      bindA (call_api (DescribeStackEvents name) (describe_stack_events cfn name)) (\<lambda>response.
      bindA (pure (dict_get ''StackEvents'' (StackEvents response))) (\<lambda>all_events.
      let events = slice_to limit all_events in
      pure (mapE format_event events))))"

definition get_stack_events ::
  "cfn_client \<Rightarrow> string \<Rightarrow> int option \<Rightarrow> event_record list tool_result \<times> api_call list" where
  "get_stack_events cfn name limit_arg =
     try_except ''Failed to get stack events: '' (get_stack_events_body cfn name limit_arg)"

subsection \<open>The entrypoint\<close>

text \<open>
  \<^verbatim>\<open>invoke\<close> (lines 186 to 228) hands the prompt of the payload to a \<^verbatim>\<open>strands\<close> agent
  that holds the four tools, and yields the text of the events the agent streams. The
  agent is outside the repository: here it is the tree of what it does, an event it
  streams or a tool it calls with what it goes on to do on the tool's result; a run is
  a finite tree, so it ends. \<open>stream_async\<close> runs the tree and gives the events
  streamed and the calls made on the client. The entrypoint reads \<^verbatim>\<open>session_id\<close> from
  the context and does not use it.
\<close>

datatype 'v tool_call =
    ValidateCall string
  | DeployCall string string "(string \<times> 'v) list option"
  | StatusCall string
  | EventsCall string "int option"

datatype tool_output =
    ValidateOut "remote_validation tool_result"
  | DeployOut "deploy_info tool_result"
  | StatusOut "snapshot tool_result"
  | EventsOut "event_record list tool_result"

datatype 'v agent_run =
    EndOfStream
  | StreamEvent "(string \<times> pyval) list" "'v agent_run"
  | ToolUse "'v tool_call" "tool_output \<Rightarrow> 'v agent_run"

fun run_tool :: "cfn_client \<Rightarrow> ('v \<Rightarrow> string) \<Rightarrow> 'v tool_call \<Rightarrow> tool_output \<times> api_call list" where
  "run_tool cfn py_str (ValidateCall t) =
     (case validate_cloudformation_template_cfn cfn t of (r, cs) \<Rightarrow> (ValidateOut r, cs))"
| "run_tool cfn py_str (DeployCall n t ps) =
     (case deploy_cloudformation_stack cfn py_str n t ps of (r, cs) \<Rightarrow> (DeployOut r, cs))"
| "run_tool cfn py_str (StatusCall n) =
     (case get_stack_status cfn n of (r, cs) \<Rightarrow> (StatusOut r, cs))"
| "run_tool cfn py_str (EventsCall n l) =
     (case get_stack_events cfn n l of (r, cs) \<Rightarrow> (EventsOut r, cs))"

primrec stream_async ::
  "cfn_client \<Rightarrow> ('v \<Rightarrow> string) \<Rightarrow> 'v agent_run \<Rightarrow> (string \<times> pyval) list list \<times> api_call list" where
  "stream_async cfn py_str EndOfStream = ([], [])"
| "stream_async cfn py_str (StreamEvent event rest) =
     (case stream_async cfn py_str rest of (events, cs) \<Rightarrow> (event # events, cs))"
| "stream_async cfn py_str (ToolUse c continue) =
     (case run_tool cfn py_str c of
        (out, cs) \<Rightarrow>
          (case stream_async cfn py_str (continue out) of
             (events, cs') \<Rightarrow> (events, cs @ cs')))"

text \<open>Lines 225 to 228: the events whose \<^verbatim>\<open>"data"\<close> is a string give their text.\<close>

fun yielded :: "(string \<times> pyval) list list \<Rightarrow> string list" where
  "yielded [] = []"
| "yielded (event # events) =
     (case map_of event ''data'' of
        Some (PStr s) \<Rightarrow> s # yielded events
      | _ \<Rightarrow> yielded events)"

definition invoke ::
  "cfn_client \<Rightarrow> ('v \<Rightarrow> string) \<Rightarrow> (string option \<Rightarrow> 'v agent_run) \<Rightarrow> (string \<times> string) list
    \<Rightarrow> string list \<times> api_call list" where
  "invoke cfn py_str agent payload =
     (case stream_async cfn py_str (agent (map_of payload ''prompt'')) of
        (events, cs) \<Rightarrow> (yielded events, cs))"

subsection \<open>The submissions among the calls\<close>

text \<open>The requests of the \<^verbatim>\<open>create_stack\<close> calls in a list of calls, in order.\<close>

fun submissions :: "api_call list \<Rightarrow> create_stack_request list" where
  "submissions [] = []"
| "submissions (CreateStack request # cs) = request # submissions cs"
| "submissions (_ # cs) = submissions cs"

text \<open>
  The tool calls an agent makes in a run, in order, and the stack name and template of
  the calls of \<^verbatim>\<open>deploy_cloudformation_stack\<close> among them.
\<close>

primrec tool_trace :: "cfn_client \<Rightarrow> ('v \<Rightarrow> string) \<Rightarrow> 'v agent_run \<Rightarrow> 'v tool_call list" where
  "tool_trace cfn py_str EndOfStream = []"
| "tool_trace cfn py_str (StreamEvent event rest) = tool_trace cfn py_str rest"
| "tool_trace cfn py_str (ToolUse c continue) =
     c # tool_trace cfn py_str (continue (fst (run_tool cfn py_str c)))"

fun deploy_calls :: "'v tool_call list \<Rightarrow> (string \<times> string) list" where
  "deploy_calls [] = []"
| "deploy_calls (DeployCall n t ps # cs) = (n, t) # deploy_calls cs"
| "deploy_calls (_ # cs) = deploy_calls cs"

section \<open>Stand-ins for the collaborators\<close>

text \<open>
  The parsers and the client are outside the repository. The theorems below hold for
  every parser and every client; where one is evaluated at a concrete input, these
  stand-ins fix what the collaborator answers there.
\<close>

definition parser_returning :: "pyval \<Rightarrow> string \<Rightarrow> exception + pyval" where
  "parser_returning v template = Inr v"

definition parser_raising :: "exception \<Rightarrow> string \<Rightarrow> exception + pyval" where
  "parser_raising e template = Inl e"

definition cfn_raising :: "exception \<Rightarrow> cfn_client" where
  "cfn_raising e =
     \<lparr>create_stack = (\<lambda>request. Inl e),
      describe_stacks = (\<lambda>name. Inl e),
      describe_stack_resources = (\<lambda>name. Inl e),
      describe_stack_events = (\<lambda>name. Inl e),
      validate_template = (\<lambda>template_body. Inl e)\<rparr>"

text \<open>
  A client on which every call succeeds: a stack in creation with one resource that has
  no physical identifier yet, two outputs of which the first has no value, and three
  events, the newest first.
\<close>

definition sample_stack_id :: string where
  "sample_stack_id = ''arn:aws:cloudformation:us-east-1:123456789012:stack/demo-stack/0a1b2c3d''"

definition sample_events :: "stack_event list" where
  "sample_events =
     [\<lparr>ev_Timestamp = Some (Datetime ''2024-01-01 00:00:02+00:00''),
       ev_ResourceType = Some ''AWS::S3::Bucket'',
       ev_LogicalResourceId = Some ''Bucket'',
       ev_ResourceStatus = Some ''CREATE_IN_PROGRESS'',
       ev_ResourceStatusReason = Some ''Resource creation Initiated''\<rparr>,
      \<lparr>ev_Timestamp = Some (Datetime ''2024-01-01 00:00:01+00:00''),
       ev_ResourceType = Some ''AWS::S3::Bucket'',
       ev_LogicalResourceId = Some ''Bucket'',
       ev_ResourceStatus = Some ''CREATE_IN_PROGRESS'',
       ev_ResourceStatusReason = None\<rparr>,
      \<lparr>ev_Timestamp = Some (Datetime ''2024-01-01 00:00:00+00:00''),
       ev_ResourceType = Some ''AWS::CloudFormation::Stack'',
       ev_LogicalResourceId = Some ''demo-stack'',
       ev_ResourceStatus = Some ''CREATE_IN_PROGRESS'',
       ev_ResourceStatusReason = Some ''User Initiated''\<rparr>]"

definition sample_cfn :: cfn_client where
  "sample_cfn =
     \<lparr>create_stack = (\<lambda>request. Inr \<lparr>StackId = Some sample_stack_id\<rparr>),
      describe_stacks = (\<lambda>name. Inr \<lparr>Stacks = Some
        [\<lparr>stack_StackName = Some name,
          stack_StackStatus = Some ''CREATE_IN_PROGRESS'',
          stack_Outputs = Some [\<lparr>OutputKey = Some ''BucketName'', OutputValue = None\<rparr>,
                               \<lparr>OutputKey = Some ''BucketArn'',
                                OutputValue = Some ''arn:aws:s3:::demo-bucket''\<rparr>],
          stack_CreationTime = Some (Datetime ''2024-01-01 00:00:00+00:00''),
          stack_LastUpdatedTime = None\<rparr>]\<rparr>),
      describe_stack_resources = (\<lambda>name. Inr \<lparr>StackResources = Some
        [\<lparr>res_LogicalResourceId = Some ''Bucket'',
          res_PhysicalResourceId = None,
          res_ResourceType = Some ''AWS::S3::Bucket'',
          res_ResourceStatus = Some ''CREATE_IN_PROGRESS''\<rparr>]\<rparr>),
      describe_stack_events = (\<lambda>name. Inr \<lparr>StackEvents = Some sample_events\<rparr>),
      validate_template = (\<lambda>template_body. Inr
        \<lparr>vt_Description = None, vt_Parameters = None, vt_Capabilities = None\<rparr>)\<rparr>"

text \<open>
  An agent that calls the validation tool on a template and then the deployment tool
  on the same template, whatever the validation answered, and ends its turn.
\<close>

definition agent_validate_then_deploy ::
  "string \<Rightarrow> string \<Rightarrow> string option \<Rightarrow> string agent_run" where
  "agent_validate_then_deploy n t prompt =
     ToolUse (ValidateCall t) (\<lambda>validated.
       ToolUse (DeployCall n t None) (\<lambda>deployed.
         StreamEvent [(''data'', PStr ''Deployment requested.'')] EndOfStream))"

section \<open>Properties of the local validation\<close>

lemma handler_invalid: "\<not> valid (validation_handler e)"
  by (cases e) simp_all

lemma handler_single: "\<exists>msg. validation_handler e = Invalid [msg]"
  by (cases e) simp_all

text \<open>The checks on a dictionary, by what its \<open>Resources\<close> entry is.\<close>

lemma structure_checks_dict:
  "structure_checks (PDict d) =
     (case map_of d (PStr ''Resources'') of
        None \<Rightarrow> Inr (Invalid [''Template must contain 'Resources' section''])
      | Some r \<Rightarrow>
          bindE (py_len r) (\<lambda>n.
            let e3 = (if \<not> isinstance_dict r then ['''Resources' must be a dictionary''] else []);
                e4 = (if n = 0 then e3 @ ['''Resources' section cannot be empty''] else e3)
            in if e4 \<noteq> [] then Inr (Invalid e4)
               else Inr (Valid ''Template structure is valid'')))"
proof (cases "map_of d (PStr ''Resources'')")
  case None
  then have "PStr ''Resources'' \<notin> fst ` set d"
    by (simp add: map_of_eq_None_iff)
  with None show ?thesis
    by (simp add: structure_checks_def bindE_def)
next
  case (Some r)
  then have "PStr ''Resources'' \<in> fst ` set d"
    by (metis map_of_eq_None_iff option.distinct(1))
  with Some show ?thesis
    by (cases "py_len r") (simp_all add: structure_checks_def bindE_def Let_def)
qed

lemma valid_iff:
  "valid (validate_cloudformation_template y j t) \<longleftrightarrow>
     (\<exists>v m. parse_template y j t = Inr v \<and> structure_checks v = Inr (Valid m))"
proof (cases "parse_template y j t")
  case (Inl e)
  then show ?thesis
    by (simp add: validate_cloudformation_template_def bindE_def handler_invalid)
next
  case (Inr v)
  show ?thesis
  proof (cases "structure_checks v")
    case (Inl e)
    with Inr show ?thesis
      by (simp add: validate_cloudformation_template_def bindE_def handler_invalid)
  next
    case r: (Inr res)
    with Inr show ?thesis
      by (cases res) (simp_all add: validate_cloudformation_template_def bindE_def)
  qed
qed

lemma structure_checks_valid_dict:
  "structure_checks v = Inr (Valid m) \<Longrightarrow> \<exists>d. v = PDict d"
  by (cases v) (auto simp: structure_checks_def bindE_def Let_def split: if_splits sum.splits)

lemma structure_checks_valid_resources:
  assumes "structure_checks (PDict d) = Inr (Valid m)"
  shows "\<exists>r. map_of d (PStr ''Resources'') = Some (PDict r) \<and> r \<noteq> []"
proof (cases "map_of d (PStr ''Resources'')")
  case None
  with assms show ?thesis by (simp add: structure_checks_dict)
next
  case (Some r)
  with assms show ?thesis
    by (cases r) (auto simp: structure_checks_dict bindE_def Let_def split: if_splits)
qed

subsection \<open>The cases in which the collected errors are returned\<close>

text \<open>
  A dictionary without \<open>Resources\<close>, one whose \<open>Resources\<close> is empty or has a length
  without being a dictionary, and a value that is not a dictionary, supports \<^verbatim>\<open>in\<close>
  and does not hold \<open>Resources\<close>.
\<close>

lemma validate_parsed:
  "parse_template y j t = Inr v \<Longrightarrow>
     validate_cloudformation_template y j t =
       (case structure_checks v of Inl e \<Rightarrow> validation_handler e | Inr result \<Rightarrow> result)"
  by (simp add: validate_cloudformation_template_def bindE_def)

lemma resources_absent:
  assumes "parse_template y j t = Inr (PDict d)" and "map_of d (PStr ''Resources'') = None"
  shows "validate_cloudformation_template y j t
           = Invalid [''Template must contain 'Resources' section'']"
  using assms by (simp add: validate_parsed structure_checks_dict)

lemma resources_empty_dict:
  assumes "parse_template y j t = Inr (PDict d)"
    and "map_of d (PStr ''Resources'') = Some (PDict [])"
  shows "validate_cloudformation_template y j t
           = Invalid ['''Resources' section cannot be empty'']"
  using assms by (simp add: validate_parsed structure_checks_dict bindE_def)

lemma resources_empty_list:
  assumes "parse_template y j t = Inr (PDict d)"
    and "map_of d (PStr ''Resources'') = Some (PList [])"
  shows "validate_cloudformation_template y j t
           = Invalid ['''Resources' must be a dictionary'',
                      '''Resources' section cannot be empty'']"
  using assms by (simp add: validate_parsed structure_checks_dict bindE_def)

lemma resources_sized_not_dict:
  assumes "parse_template y j t = Inr (PDict d)"
    and "map_of d (PStr ''Resources'') = Some r"
    and "\<not> isinstance_dict r" and "py_len r = Inr n"
  shows "\<not> valid (validate_cloudformation_template y j t)
         \<and> '''Resources' must be a dictionary''
             \<in> set (errors (validate_cloudformation_template y j t))"
  using assms by (simp add: validate_parsed structure_checks_dict bindE_def Let_def)

lemma top_level_not_dict:
  assumes "parse_template y j t = Inr v" and "\<not> isinstance_dict v"
    and "py_contains ''Resources'' v = Inr False"
  shows "validate_cloudformation_template y j t
           = Invalid [''Template must be a dictionary/object'',
                      ''Template must contain 'Resources' section'']"
proof -
  from assms(2,3) obtain b where "py_contains ''AWSTemplateFormatVersion'' v = Inr b"
    by (cases v) simp_all
  with assms show ?thesis
    by (simp add: validate_parsed structure_checks_def bindE_def)
qed

subsection \<open>The cases in which a later check raises\<close>

text \<open>
  C2, at the template \<^verbatim>\<open>42\<close>, which \<^verbatim>\<open>yaml.safe_load\<close> reads as the integer 42. The
  error "Template must be a dictionary/object" is collected at line 36, and the
  membership test of line 38 then raises \<open>TypeError\<close>: the result is valid=false with
  the single error of the last handler, and the collected error is lost.
\<close>

theorem validate_integer_template:
  "validate_cloudformation_template (parser_returning (PInt 42)) (parser_returning (PInt 42)) ''42''
     = Invalid [''Validation error: argument of type 'int' is not iterable'']
   \<and> ''Template must be a dictionary/object''
       \<notin> set (errors (validate_cloudformation_template
                        (parser_returning (PInt 42)) (parser_returning (PInt 42)) ''42''))"
  by (simp add: validate_cloudformation_template_def parse_template_def parser_returning_def
      structure_checks_def bindE_def quoted_def)

text \<open>
  C3, at the template \<^verbatim>\<open>Resources:\<close>, which \<^verbatim>\<open>yaml.safe_load\<close> reads as the mapping of
  \<open>Resources\<close> to \<open>None\<close>. The error "'Resources' must be a dictionary" is collected at
  line 42, and \<^verbatim>\<open>len\<close> at line 44 then raises \<open>TypeError\<close>: the result is valid=false
  with the single error of the last handler, which does not mention the dictionary.
\<close>

theorem validate_resources_none:
  "validate_cloudformation_template
     (parser_returning (PDict [(PStr ''Resources'', PNone)]))
     (parser_raising (JSONDecodeError ''Expecting value: line 1 column 1 (char 0)''))
     ''Resources:''
     = Invalid [''Validation error: object of type 'NoneType' has no len()'']
   \<and> '''Resources' must be a dictionary''
       \<notin> set (errors (validate_cloudformation_template
                        (parser_returning (PDict [(PStr ''Resources'', PNone)]))
                        (parser_raising (JSONDecodeError ''Expecting value: line 1 column 1 (char 0)''))
                        ''Resources:''))"
  by (simp add: validate_cloudformation_template_def parse_template_def parser_returning_def
      structure_checks_def bindE_def quoted_def)

subsection \<open>An accepted template\<close>

text \<open>
  C7: when the validation answers valid=true, parsing the same text (YAML first, JSON
  after a YAML error) gives a dictionary whose \<open>Resources\<close> entry is a dictionary that is
  not empty.
\<close>

theorem valid_template_has_resources:
  assumes "valid (validate_cloudformation_template yaml_safe_load json_loads template)"
  shows "\<exists>d r. parse_template yaml_safe_load json_loads template = Inr (PDict d)
           \<and> map_of d (PStr ''Resources'') = Some (PDict r) \<and> r \<noteq> []"
  using assms structure_checks_valid_dict structure_checks_valid_resources
  unfolding valid_iff by blast

theorem valid_template_has_resources_witness:
  "valid (validate_cloudformation_template
            (parser_returning (PDict [(PStr ''Resources'',
               PDict [(PStr ''Bucket'', PDict [(PStr ''Type'', PStr ''AWS::S3::Bucket'')])])]))
            (parser_raising (JSONDecodeError ''Expecting value: line 1 column 1 (char 0)''))
            ''Resources: {Bucket: {Type: 'AWS::S3::Bucket'}}'')
   \<and> (\<exists>d r. parse_template
            (parser_returning (PDict [(PStr ''Resources'',
               PDict [(PStr ''Bucket'', PDict [(PStr ''Type'', PStr ''AWS::S3::Bucket'')])])]))
            (parser_raising (JSONDecodeError ''Expecting value: line 1 column 1 (char 0)''))
            ''Resources: {Bucket: {Type: 'AWS::S3::Bucket'}}'' = Inr (PDict d)
         \<and> map_of d (PStr ''Resources'') = Some (PDict r) \<and> r \<noteq> [])"
proof -
  have v: "valid (validate_cloudformation_template
            (parser_returning (PDict [(PStr ''Resources'',
               PDict [(PStr ''Bucket'', PDict [(PStr ''Type'', PStr ''AWS::S3::Bucket'')])])]))
            (parser_raising (JSONDecodeError ''Expecting value: line 1 column 1 (char 0)''))
            ''Resources: {Bucket: {Type: 'AWS::S3::Bucket'}}'')"
    by (simp add: validate_cloudformation_template_def parse_template_def parser_returning_def
        structure_checks_def bindE_def)
  from v valid_template_has_resources [OF v] show ?thesis by blast
qed

subsection \<open>The order of the parsers\<close>

text \<open>
  C6: the YAML parser is tried first, and its result stands unless it raises a
  \<open>YAMLError\<close>; only then is the text given to the JSON parser, whose result stands.
  When the JSON parser raises too, the validation answers valid=false with exactly one
  error, and for its parse error that one is "Invalid JSON: " followed by the parser's
  message.
\<close>

theorem yaml_first_then_json:
  "((\<forall>m. yaml_safe_load template \<noteq> Inl (YAMLError m)) \<longrightarrow>
      parse_template yaml_safe_load json_loads template = yaml_safe_load template)
   \<and> (yaml_safe_load template = Inl (YAMLError m) \<longrightarrow>
      parse_template yaml_safe_load json_loads template = json_loads template)
   \<and> (yaml_safe_load template = Inl (YAMLError m) \<and> json_loads template = Inl e \<longrightarrow>
        \<not> valid (validate_cloudformation_template yaml_safe_load json_loads template)
        \<and> (\<exists>msg. errors (validate_cloudformation_template yaml_safe_load json_loads template) = [msg]))
   \<and> (yaml_safe_load template = Inl (YAMLError m) \<and> json_loads template = Inl (JSONDecodeError m') \<longrightarrow>
        validate_cloudformation_template yaml_safe_load json_loads template
          = Invalid [''Invalid JSON: '' @ m'])"
proof (intro conjI impI)
  assume "\<forall>m. yaml_safe_load template \<noteq> Inl (YAMLError m)"
  then show "parse_template yaml_safe_load json_loads template = yaml_safe_load template"
    by (auto simp: parse_template_def split: sum.splits exception.splits)
next
  assume "yaml_safe_load template = Inl (YAMLError m)"
  then show "parse_template yaml_safe_load json_loads template = json_loads template"
    by (simp add: parse_template_def)
next
  assume a: "yaml_safe_load template = Inl (YAMLError m) \<and> json_loads template = Inl e"
  then have v: "validate_cloudformation_template yaml_safe_load json_loads template = validation_handler e"
    by (simp add: validate_cloudformation_template_def parse_template_def bindE_def)
  show "\<not> valid (validate_cloudformation_template yaml_safe_load json_loads template)"
    by (simp add: v handler_invalid)
  from handler_single [of e] obtain msg where "validation_handler e = Invalid [msg]" ..
  then show "\<exists>msg. errors (validate_cloudformation_template yaml_safe_load json_loads template) = [msg]"
    by (simp add: v)
next
  assume "yaml_safe_load template = Inl (YAMLError m) \<and> json_loads template = Inl (JSONDecodeError m')"
  then show "validate_cloudformation_template yaml_safe_load json_loads template = Invalid [''Invalid JSON: '' @ m']"
    by (simp add: validate_cloudformation_template_def parse_template_def bindE_def)
qed

theorem yaml_first_then_json_witness:
  "parse_template (parser_returning (PInt 42)) (parser_raising (OtherException ''unused'')) ''42'' = Inr (PInt 42)
   \<and> validate_cloudformation_template
        (parser_raising (YAMLError ''while parsing a flow node''))
        (parser_raising (JSONDecodeError ''Expecting value: line 1 column 1 (char 0)''))
        ''not: [valid, yaml, {''
      = Invalid [''Invalid JSON: Expecting value: line 1 column 1 (char 0)'']"
  using yaml_first_then_json [where yaml_safe_load = "parser_returning (PInt 42)" and template = "''42''"
      and json_loads = "parser_raising (OtherException ''unused'')"]
    yaml_first_then_json [where yaml_safe_load = "parser_raising (YAMLError ''while parsing a flow node'')"
      and template = "''not: [valid, yaml, {''"
      and m = "''while parsing a flow node''"
      and json_loads = "parser_raising (JSONDecodeError ''Expecting value: line 1 column 1 (char 0)'')"
      and m' = "''Expecting value: line 1 column 1 (char 0)''"]
  by (simp add: parser_returning_def parser_raising_def)

section \<open>Properties of the deployment\<close>

lemma cfn_parameters_eq:
  "cfn_parameters py_str parameters =
     map (\<lambda>(k, v). \<lparr>ParameterKey = k, ParameterValue = py_str v\<rparr>)
       (case parameters of None \<Rightarrow> [] | Some ps \<Rightarrow> ps)"
  by (simp add: cfn_parameters_def split: option.splits)

text \<open>
  C4: when \<^verbatim>\<open>create_stack\<close> answers the request with a response that holds a stack
  identifier, the tool returns success with that identifier (not empty when the
  backend's is not), the status \<open>CREATE_IN_PROGRESS\<close> and the message, and the one call
  it made on the client is that submission: it makes no call that would wait for the
  stack. The request holds the supplied parameters as the list of their key and value
  pairs in the order of the mapping, and leaving the argument out gives the same as
  the empty mapping.
\<close>

theorem deploy_success:
  assumes "request =
      \<lparr>StackName = stack_name,
       TemplateBody = template_body,
       Parameters = map (\<lambda>(k, v). \<lparr>ParameterKey = k, ParameterValue = py_str v\<rparr>)
                      (case parameters of None \<Rightarrow> [] | Some ps \<Rightarrow> ps),
       Capabilities = [''CAPABILITY_IAM'', ''CAPABILITY_NAMED_IAM'', ''CAPABILITY_AUTO_EXPAND''],
       OnFailure = ''ROLLBACK'',
       Tags = [\<lparr>Key = ''ManagedBy'', Value = ''MWCAgent''\<rparr>,
               \<lparr>Key = ''Agent'', Value = ''ProvisioningAgent''\<rparr>]\<rparr>"
    and "create_stack cfn request = Inr response"
    and "StackId response = Some sid"
  shows "deploy_cloudformation_stack cfn py_str stack_name template_body parameters =
           (Success \<lparr>stack_id = sid,
                     deploy_status = ''CREATE_IN_PROGRESS'',
                     deploy_message = ''Stack '' @ stack_name @ '' deployment initiated successfully''\<rparr>,
            [CreateStack request])
         \<and> (sid \<noteq> [] \<longrightarrow>
              (\<exists>info. fst (deploy_cloudformation_stack cfn py_str stack_name template_body parameters)
                        = Success info \<and> stack_id info \<noteq> []))
         \<and> deploy_cloudformation_stack cfn py_str stack_name template_body None =
           deploy_cloudformation_stack cfn py_str stack_name template_body (Some [])"
  using assms
  by (simp add: deploy_cloudformation_stack_def deploy_body_def cfn_parameters_eq
      try_except_def bindA_def call_api_def pure_def dict_get_def)

theorem deploy_success_witness:
  "deploy_cloudformation_stack sample_cfn id ''demo-stack'' ''Resources: {Bucket: {Type: Bucket}}''
      (Some [(''Env'', ''dev''), (''Owner'', ''mwc'')]) =
     (Success \<lparr>stack_id = sample_stack_id,
               deploy_status = ''CREATE_IN_PROGRESS'',
               deploy_message = ''Stack demo-stack deployment initiated successfully''\<rparr>,
      [CreateStack
        \<lparr>StackName = ''demo-stack'',
         TemplateBody = ''Resources: {Bucket: {Type: Bucket}}'',
         Parameters = [\<lparr>ParameterKey = ''Env'', ParameterValue = ''dev''\<rparr>,
                       \<lparr>ParameterKey = ''Owner'', ParameterValue = ''mwc''\<rparr>],
         Capabilities = [''CAPABILITY_IAM'', ''CAPABILITY_NAMED_IAM'', ''CAPABILITY_AUTO_EXPAND''],
         OnFailure = ''ROLLBACK'',
         Tags = [\<lparr>Key = ''ManagedBy'', Value = ''MWCAgent''\<rparr>,
                 \<lparr>Key = ''Agent'', Value = ''ProvisioningAgent''\<rparr>]\<rparr>])"
  using deploy_success [where cfn = sample_cfn and py_str = id and stack_name = "''demo-stack''"
      and template_body = "''Resources: {Bucket: {Type: Bucket}}''"
      and parameters = "Some [(''Env'', ''dev''), (''Owner'', ''mwc'')]"
      and response = "\<lparr>StackId = Some sample_stack_id\<rparr>" and sid = sample_stack_id, OF refl]
  by (simp add: sample_cfn_def)

text \<open>
  C5: whatever the client, the stack name, the template and the parameters, the tool
  makes exactly one submission, and that submission declares the three capabilities
  \<open>CAPABILITY_IAM\<close>, \<open>CAPABILITY_NAMED_IAM\<close> and \<open>CAPABILITY_AUTO_EXPAND\<close>, the on-failure
  policy \<open>ROLLBACK\<close> and the two tags \<open>ManagedBy = MWCAgent\<close> and
  \<open>Agent = ProvisioningAgent\<close>: no argument of the tool reaches any of the three.
\<close>

theorem deploy_fixed_settings:
  "map Capabilities
     (submissions (snd (deploy_cloudformation_stack cfn py_str stack_name template_body parameters)))
     = [[''CAPABILITY_IAM'', ''CAPABILITY_NAMED_IAM'', ''CAPABILITY_AUTO_EXPAND'']]
   \<and> map OnFailure
     (submissions (snd (deploy_cloudformation_stack cfn py_str stack_name template_body parameters)))
     = [''ROLLBACK'']
   \<and> map Tags
     (submissions (snd (deploy_cloudformation_stack cfn py_str stack_name template_body parameters)))
     = [[\<lparr>Key = ''ManagedBy'', Value = ''MWCAgent''\<rparr>,
         \<lparr>Key = ''Agent'', Value = ''ProvisioningAgent''\<rparr>]]"
  by (simp add: deploy_cloudformation_stack_def deploy_body_def
      try_except_def bindA_def call_api_def pure_def dict_get_def Let_def
      split: sum.splits option.splits prod.splits)

section \<open>Errors stay inside the tools\<close>

lemma try_except_raised:
  "fst body = Inl e \<Longrightarrow>
     fst (try_except failed body) = Failure (py_str_exc e) (failed @ py_str_exc e)"
  by (cases body) (simp add: try_except_def)

text \<open>
  C8: each of the four operations is a \<^verbatim>\<open>try\<close> block whose handler catches every
  \<open>Exception\<close>. Whatever exception \<open>e\<close> the block raises, from a parser, the client, a
  missing key or a type error, the operation returns a result: the local validation
  valid=false with one error message, and the three tools success=false with
  \<^verbatim>\<open>str(e)\<close> as the error and their message ending in it. Being functions that
  return the result, they pass no exception on to the caller.
\<close>

theorem exceptions_become_results:
  "(bindE (parse_template yaml_safe_load json_loads template) structure_checks = Inl e \<longrightarrow>
      \<not> valid (validate_cloudformation_template yaml_safe_load json_loads template)
      \<and> (\<exists>msg. validate_cloudformation_template yaml_safe_load json_loads template = Invalid [msg]))
   \<and> (fst (deploy_body cfn py_str stack_name template_body parameters) = Inl e \<longrightarrow>
      fst (deploy_cloudformation_stack cfn py_str stack_name template_body parameters)
        = Failure (py_str_exc e) (''Failed to deploy stack: '' @ py_str_exc e))
   \<and> (fst (get_stack_status_body cfn stack_name) = Inl e \<longrightarrow>
      fst (get_stack_status cfn stack_name)
        = Failure (py_str_exc e) (''Failed to get stack status: '' @ py_str_exc e))
   \<and> (fst (get_stack_events_body cfn stack_name limit) = Inl e \<longrightarrow>
      fst (get_stack_events cfn stack_name limit)
        = Failure (py_str_exc e) (''Failed to get stack events: '' @ py_str_exc e))"
proof (intro conjI impI)
  assume "bindE (parse_template yaml_safe_load json_loads template) structure_checks = Inl e"
  then have v: "validate_cloudformation_template yaml_safe_load json_loads template
      = validation_handler e"
    by (simp add: validate_cloudformation_template_def)
  show "\<not> valid (validate_cloudformation_template yaml_safe_load json_loads template)"
    by (simp add: v handler_invalid)
  show "\<exists>msg. validate_cloudformation_template yaml_safe_load json_loads template = Invalid [msg]"
    by (simp add: v handler_single)
qed (simp_all add: deploy_cloudformation_stack_def get_stack_status_def get_stack_events_def
      try_except_raised)

theorem exceptions_become_results_witness:
  "validate_cloudformation_template (parser_returning (PInt 42)) (parser_returning (PInt 42)) ''42''
     = Invalid [''Validation error: argument of type 'int' is not iterable'']
   \<and> fst (deploy_cloudformation_stack (cfn_raising (OtherException ''Stack [demo-stack] already exists''))
          id ''demo-stack'' ''Resources: {}'' None)
     = Failure ''Stack [demo-stack] already exists''
         ''Failed to deploy stack: Stack [demo-stack] already exists''
   \<and> fst (get_stack_status (cfn_raising (OtherException ''Stack with id nonexistent-stack-xyz does not exist''))
          ''nonexistent-stack-xyz'')
     = Failure ''Stack with id nonexistent-stack-xyz does not exist''
         ''Failed to get stack status: Stack with id nonexistent-stack-xyz does not exist''
   \<and> fst (get_stack_events (cfn_raising (OtherException ''Stack [nonexistent-stack-xyz] does not exist''))
          ''nonexistent-stack-xyz'' None)
     = Failure ''Stack [nonexistent-stack-xyz] does not exist''
         ''Failed to get stack events: Stack [nonexistent-stack-xyz] does not exist''"
proof -
  let ?e1 = "TypeError ''argument of type 'int' is not iterable''"
  let ?e2 = "OtherException ''Stack [demo-stack] already exists''"
  let ?e3 = "OtherException ''Stack with id nonexistent-stack-xyz does not exist''"
  let ?e4 = "OtherException ''Stack [nonexistent-stack-xyz] does not exist''"
  have b1: "bindE (parse_template (parser_returning (PInt 42)) (parser_returning (PInt 42)) ''42'')
      structure_checks = Inl ?e1"
    by (simp add: parse_template_def parser_returning_def structure_checks_def bindE_def quoted_def)
  have b2: "fst (deploy_body (cfn_raising ?e2) id ''demo-stack'' ''Resources: {}'' None) = Inl ?e2"
    by (simp add: deploy_body_def cfn_raising_def bindA_def call_api_def)
  have b3: "fst (get_stack_status_body (cfn_raising ?e3) ''nonexistent-stack-xyz'') = Inl ?e3"
    by (simp add: get_stack_status_body_def cfn_raising_def bindA_def call_api_def)
  have b4: "fst (get_stack_events_body (cfn_raising ?e4) ''nonexistent-stack-xyz'' None) = Inl ?e4"
    by (simp add: get_stack_events_body_def cfn_raising_def bindA_def call_api_def)
  from exceptions_become_results [where e = ?e1 and yaml_safe_load = "parser_returning (PInt 42)"
      and json_loads = "parser_returning (PInt 42)" and template = "''42''"] b1
  obtain msg where m: "validate_cloudformation_template (parser_returning (PInt 42))
      (parser_returning (PInt 42)) ''42'' = Invalid [msg]" by blast
  have c1: "validate_cloudformation_template (parser_returning (PInt 42)) (parser_returning (PInt 42)) ''42''
     = Invalid [''Validation error: argument of type 'int' is not iterable'']"
    using m b1 by (simp add: validate_cloudformation_template_def)
  have c2: "fst (deploy_cloudformation_stack (cfn_raising ?e2) id ''demo-stack'' ''Resources: {}'' None)
     = Failure ''Stack [demo-stack] already exists''
         ''Failed to deploy stack: Stack [demo-stack] already exists''"
    using exceptions_become_results [where e = ?e2 and cfn = "cfn_raising ?e2" and py_str = id
        and stack_name = "''demo-stack''" and template_body = "''Resources: {}''"
        and parameters = None] b2
    by simp
  have c3: "fst (get_stack_status (cfn_raising ?e3) ''nonexistent-stack-xyz'')
     = Failure ''Stack with id nonexistent-stack-xyz does not exist''
         ''Failed to get stack status: Stack with id nonexistent-stack-xyz does not exist''"
    using exceptions_become_results [where e = ?e3 and cfn = "cfn_raising ?e3"
        and stack_name = "''nonexistent-stack-xyz''" and py_str = "id :: string \<Rightarrow> string"] b3
    by simp
  have c4: "fst (get_stack_events (cfn_raising ?e4) ''nonexistent-stack-xyz'' None)
     = Failure ''Stack [nonexistent-stack-xyz] does not exist''
         ''Failed to get stack events: Stack [nonexistent-stack-xyz] does not exist''"
    using exceptions_become_results [where e = ?e4 and cfn = "cfn_raising ?e4"
        and stack_name = "''nonexistent-stack-xyz''" and limit = None
        and py_str = "id :: string \<Rightarrow> string"] b4
    by simp
  from c1 c2 c3 c4 show ?thesis by blast
qed

section \<open>Properties of the event retrieval\<close>

lemma get_stack_events_sliced:
  assumes "describe_stack_events cfn stack_name = Inr response"
    and "StackEvents response = Some all_events"
  shows "get_stack_events cfn stack_name limit_arg =
     ((case mapE format_event
              (slice_to (case limit_arg of None \<Rightarrow> 10 | Some l \<Rightarrow> l) all_events) of
         Inr formatted \<Rightarrow> Success formatted
       | Inl e \<Rightarrow> Failure (py_str_exc e) (''Failed to get stack events: '' @ py_str_exc e)),
      [DescribeStackEvents stack_name])"
  using assms
  by (simp add: get_stack_events_def get_stack_events_body_def try_except_def bindA_def
      call_api_def pure_def dict_get_def Let_def split: sum.splits)

text \<open>
  C1 as the code has it. When the client answers with its list of events, a positive
  limit \<open>n\<close> gives the first \<open>n\<close> events of that list (all of them when it is
  shorter), formatted one by one and in the order of the client; only these entries
  are read, and the tool fails when one of them lacks a key it reads. A limit left out
  is the limit 10. The limit 0 is not replaced by 10: it gives no event.
\<close>

theorem get_stack_events_limit:
  assumes "describe_stack_events cfn stack_name = Inr response"
    and "StackEvents response = Some all_events"
  shows "(0 < n \<longrightarrow>
            fst (get_stack_events cfn stack_name (Some n)) =
              (case mapE format_event (take (nat n) all_events) of
                 Inr formatted \<Rightarrow> Success formatted
               | Inl e \<Rightarrow>
                   Failure (py_str_exc e) (''Failed to get stack events: '' @ py_str_exc e)))
       \<and> get_stack_events cfn stack_name None = get_stack_events cfn stack_name (Some 10)
       \<and> fst (get_stack_events cfn stack_name (Some 0)) = Success []"
  by (simp add: get_stack_events_sliced [OF assms] slice_to_def)

theorem get_stack_events_limit_witness:
  "fst (get_stack_events sample_cfn ''demo-stack'' (Some 2)) =
     Success [\<lparr>timestamp = ''2024-01-01 00:00:02+00:00'', event_resource_type = ''AWS::S3::Bucket'',
           event_logical_id = ''Bucket'', event_status = ''CREATE_IN_PROGRESS'',
           reason = ''Resource creation Initiated''\<rparr>,
          \<lparr>timestamp = ''2024-01-01 00:00:01+00:00'', event_resource_type = ''AWS::S3::Bucket'',
           event_logical_id = ''Bucket'', event_status = ''CREATE_IN_PROGRESS'',
           reason = ''N/A''\<rparr>]
   \<and> fst (get_stack_events sample_cfn ''demo-stack'' (Some 7)) =
       fst (get_stack_events sample_cfn ''demo-stack'' None)
   \<and> fst (get_stack_events
         (sample_cfn\<lparr>describe_stack_events := (\<lambda>name. Inr \<lparr>StackEvents = Some
            (sample_events @
             [\<lparr>ev_Timestamp = None, ev_ResourceType = None, ev_LogicalResourceId = None,
               ev_ResourceStatus = None, ev_ResourceStatusReason = None\<rparr>])\<rparr>)\<rparr>)
         ''demo-stack'' (Some 1)) =
     Success [\<lparr>timestamp = ''2024-01-01 00:00:02+00:00'', event_resource_type = ''AWS::S3::Bucket'',
           event_logical_id = ''Bucket'', event_status = ''CREATE_IN_PROGRESS'',
           reason = ''Resource creation Initiated''\<rparr>]"
proof -
  let ?tail = "sample_events @
             [\<lparr>ev_Timestamp = None, ev_ResourceType = None, ev_LogicalResourceId = None,
               ev_ResourceStatus = None, ev_ResourceStatusReason = None\<rparr>]"
  let ?cfn = "sample_cfn\<lparr>describe_stack_events := (\<lambda>name. Inr \<lparr>StackEvents = Some ?tail\<rparr>)\<rparr>"
  have d': "describe_stack_events ?cfn ''demo-stack'' = Inr \<lparr>StackEvents = Some ?tail\<rparr>"
    by simp
  have s': "StackEvents \<lparr>StackEvents = Some ?tail\<rparr> = Some ?tail"
    by simp
  have third: "fst (get_stack_events ?cfn ''demo-stack'' (Some 1)) =
     Success [\<lparr>timestamp = ''2024-01-01 00:00:02+00:00'', event_resource_type = ''AWS::S3::Bucket'',
           event_logical_id = ''Bucket'', event_status = ''CREATE_IN_PROGRESS'',
           reason = ''Resource creation Initiated''\<rparr>]"
    using get_stack_events_limit [OF d' s', of 1]
    by (simp add: sample_events_def format_event_def bindE_def dict_get_def)
  have d: "describe_stack_events sample_cfn ''demo-stack'' = Inr \<lparr>StackEvents = Some sample_events\<rparr>"
    by (simp add: sample_cfn_def)
  have s: "StackEvents \<lparr>StackEvents = Some sample_events\<rparr> = Some sample_events"
    by simp
  from get_stack_events_limit [OF d s, of 2] get_stack_events_limit [OF d s, of 7]
    get_stack_events_limit [OF d s, of 10]
  have "fst (get_stack_events sample_cfn ''demo-stack'' (Some 2)) =
     Success [\<lparr>timestamp = ''2024-01-01 00:00:02+00:00'', event_resource_type = ''AWS::S3::Bucket'',
           event_logical_id = ''Bucket'', event_status = ''CREATE_IN_PROGRESS'',
           reason = ''Resource creation Initiated''\<rparr>,
          \<lparr>timestamp = ''2024-01-01 00:00:01+00:00'', event_resource_type = ''AWS::S3::Bucket'',
           event_logical_id = ''Bucket'', event_status = ''CREATE_IN_PROGRESS'',
           reason = ''N/A''\<rparr>]
   \<and> fst (get_stack_events sample_cfn ''demo-stack'' (Some 7)) =
       fst (get_stack_events sample_cfn ''demo-stack'' None)"
    by (simp add: sample_events_def format_event_def bindE_def dict_get_def)
  with third show ?thesis by blast
qed

text \<open>
  C1 as stated fails: on a stack with three events the limit 0 gives no event, where
  the default limit gives all three.
\<close>

theorem nonpositive_limit_counterexample:
  "fst (get_stack_events sample_cfn ''demo-stack'' (Some 0)) = Success []
   \<and> fst (get_stack_events sample_cfn ''demo-stack'' None) =
     Success [\<lparr>timestamp = ''2024-01-01 00:00:02+00:00'', event_resource_type = ''AWS::S3::Bucket'',
           event_logical_id = ''Bucket'', event_status = ''CREATE_IN_PROGRESS'',
           reason = ''Resource creation Initiated''\<rparr>,
          \<lparr>timestamp = ''2024-01-01 00:00:01+00:00'', event_resource_type = ''AWS::S3::Bucket'',
           event_logical_id = ''Bucket'', event_status = ''CREATE_IN_PROGRESS'',
           reason = ''N/A''\<rparr>,
          \<lparr>timestamp = ''2024-01-01 00:00:00+00:00'', event_resource_type = ''AWS::CloudFormation::Stack'',
           event_logical_id = ''demo-stack'', event_status = ''CREATE_IN_PROGRESS'',
           reason = ''User Initiated''\<rparr>]
   \<and> fst (get_stack_events sample_cfn ''demo-stack'' (Some 0))
       \<noteq> fst (get_stack_events sample_cfn ''demo-stack'' None)"
proof -
  have d: "describe_stack_events sample_cfn ''demo-stack'' = Inr \<lparr>StackEvents = Some sample_events\<rparr>"
    by (simp add: sample_cfn_def)
  have s: "StackEvents \<lparr>StackEvents = Some sample_events\<rparr> = Some sample_events"
    by simp
  show ?thesis
    by (simp add: get_stack_events_sliced [OF d s] slice_to_def
        sample_events_def format_event_def bindE_def dict_get_def)
qed

section \<open>Properties of the status retrieval\<close>











section \<open>Properties of the entrypoint\<close>

lemma submissions_append: "submissions (cs @ cs') = submissions cs @ submissions cs'"
  by (induction cs rule: submissions.induct) simp_all

lemma deploy_submits_once:
  "map (\<lambda>r. (StackName r, TemplateBody r))
     (submissions (snd (deploy_cloudformation_stack cfn py_str n t ps))) = [(n, t)]"
  by (simp add: deploy_cloudformation_stack_def deploy_body_def
      try_except_def bindA_def call_api_def pure_def dict_get_def Let_def
      split: sum.splits option.splits prod.splits)

lemma status_submits_nothing: "submissions (snd (get_stack_status cfn n)) = []"
  by (simp add: get_stack_status_def get_stack_status_body_def
      try_except_def bindA_def call_api_def pure_def
      split: sum.splits option.splits prod.splits)

lemma events_submits_nothing: "submissions (snd (get_stack_events cfn n l)) = []"
  by (simp add: get_stack_events_def get_stack_events_body_def
      try_except_def bindA_def call_api_def pure_def Let_def
      split: sum.splits option.splits prod.splits)

lemma validate_submits_nothing:
  "submissions (snd (validate_cloudformation_template_cfn cfn t)) = []"
  by (simp add: validate_cloudformation_template_cfn_def
      validate_cloudformation_template_cfn_body_def
      try_except_def bindA_def call_api_def pure_def Let_def
      split: sum.splits option.splits prod.splits)

lemma run_tool_submissions:
  "map (\<lambda>r. (StackName r, TemplateBody r)) (submissions (snd (run_tool cfn py_str c)))
     = deploy_calls [c]"
  by (cases c)
    (simp_all add: deploy_submits_once status_submits_nothing events_submits_nothing
      validate_submits_nothing case_prod_beta)

lemma deploy_calls_Cons: "deploy_calls (c # cs) = deploy_calls [c] @ deploy_calls cs"
  by (cases c) simp_all

lemma stream_async_submissions:
  "map (\<lambda>r. (StackName r, TemplateBody r)) (submissions (snd (stream_async cfn py_str run)))
     = deploy_calls (tool_trace cfn py_str run)"
proof (induction run)
  case EndOfStream
  then show ?case by simp
next
  case (StreamEvent event rest)
  then show ?case by (simp add: case_prod_beta)
next
  case (ToolUse c continue)
  let ?out = "fst (run_tool cfn py_str c)"
  have ih: "map (\<lambda>r. (StackName r, TemplateBody r))
          (submissions (snd (stream_async cfn py_str (continue ?out))))
        = deploy_calls (tool_trace cfn py_str (continue ?out))"
    by (rule ToolUse.IH) simp
  have calls: "snd (stream_async cfn py_str (ToolUse c continue))
      = snd (run_tool cfn py_str c) @ snd (stream_async cfn py_str (continue ?out))"
    by (simp add: case_prod_beta)
  have "map (\<lambda>r. (StackName r, TemplateBody r))
          (submissions (snd (stream_async cfn py_str (ToolUse c continue))))
        = deploy_calls [c] @ deploy_calls (tool_trace cfn py_str (continue ?out))"
    by (simp only: calls submissions_append map_append ih run_tool_submissions)
  also have "\<dots> = deploy_calls (c # tool_trace cfn py_str (continue ?out))"
    by (rule deploy_calls_Cons [symmetric])
  finally show ?case by simp
qed

text \<open>
  C9 as the code has it. The entrypoint gives the agent the four tools and places no
  check between them: the submissions made during a request are those of the
  deployment calls the agent makes, one for each call, in order and with the stack name
  and template of the call, whether or not a validation came before and whatever it
  answered. No submission is made exactly when the agent makes no deployment call.
\<close>

theorem submissions_follow_agent:
  "map (\<lambda>r. (StackName r, TemplateBody r))
     (submissions (snd (invoke cfn py_str agent payload)))
     = deploy_calls (tool_trace cfn py_str (agent (map_of payload ''prompt'')))"
  by (simp add: invoke_def stream_async_submissions case_prod_beta)


text \<open>
  C9 as stated fails: the template \<^verbatim>\<open>Description: demo\<close> has no \<open>Resources\<close> and fails
  the local validation; an agent that calls the validation tool, is told of the
  failure and calls the deployment tool all the same reaches the backend with the
  submission.
\<close>

theorem deploy_after_failed_validation_counterexample:
  "validate_cloudformation_template
     (parser_returning (PDict [(PStr ''Description'', PStr ''demo'')]))
     (parser_raising (JSONDecodeError ''Expecting value: line 1 column 1 (char 0)''))
     ''Description: demo''
     = Invalid [''Template must contain 'Resources' section'']
   \<and> invoke
       (cfn_raising (OtherException
          ''Template format error: At least one Resources member must be defined.''))
       id (agent_validate_then_deploy ''demo-stack'' ''Description: demo'')
       [(''prompt'', ''Deploy this template as demo-stack: Description: demo'')]
     = ([''Deployment requested.''],
        [ValidateTemplate ''Description: demo'',
         CreateStack
           \<lparr>StackName = ''demo-stack'',
            TemplateBody = ''Description: demo'',
            Parameters = [],
            Capabilities = [''CAPABILITY_IAM'', ''CAPABILITY_NAMED_IAM'', ''CAPABILITY_AUTO_EXPAND''],
            OnFailure = ''ROLLBACK'',
            Tags = [\<lparr>Key = ''ManagedBy'', Value = ''MWCAgent''\<rparr>,
                    \<lparr>Key = ''Agent'', Value = ''ProvisioningAgent''\<rparr>]\<rparr>])"
proof -
  have v: "validate_cloudformation_template
     (parser_returning (PDict [(PStr ''Description'', PStr ''demo'')]))
     (parser_raising (JSONDecodeError ''Expecting value: line 1 column 1 (char 0)''))
     ''Description: demo''
     = Invalid [''Template must contain 'Resources' section'']"
    by (simp add: validate_cloudformation_template_def parse_template_def parser_returning_def
        structure_checks_dict bindE_def)
  have i: "invoke
       (cfn_raising (OtherException
          ''Template format error: At least one Resources member must be defined.''))
       id (agent_validate_then_deploy ''demo-stack'' ''Description: demo'')
       [(''prompt'', ''Deploy this template as demo-stack: Description: demo'')]
     = ([''Deployment requested.''],
        [ValidateTemplate ''Description: demo'',
         CreateStack
           \<lparr>StackName = ''demo-stack'',
            TemplateBody = ''Description: demo'',
            Parameters = [],
            Capabilities = [''CAPABILITY_IAM'', ''CAPABILITY_NAMED_IAM'', ''CAPABILITY_AUTO_EXPAND''],
            OnFailure = ''ROLLBACK'',
            Tags = [\<lparr>Key = ''ManagedBy'', Value = ''MWCAgent''\<rparr>,
                    \<lparr>Key = ''Agent'', Value = ''ProvisioningAgent''\<rparr>]\<rparr>])"
    by (simp add: invoke_def agent_validate_then_deploy_def cfn_raising_def
        validate_cloudformation_template_cfn_def validate_cloudformation_template_cfn_body_def
        deploy_cloudformation_stack_def deploy_body_def cfn_parameters_def
        try_except_def bindA_def call_api_def)
  from v i show ?thesis by (rule conjI)
qed

end
